theory Spec2Isabelle
  imports Complex_Main
begin

section \<open>Commission engine of primapp (src/app.py)\<close>

text \<open>
  The theory embeds the commission computation of \<^verbatim>\<open>src/app.py\<close>: the helpers
  \<^verbatim>\<open>eur_from_tl\<close>, \<^verbatim>\<open>quarter_from_iso\<close>, \<^verbatim>\<open>later_date\<close>, \<^verbatim>\<open>pct_to_rate\<close>, the
  aggregation query of \<^verbatim>\<open>fetch_eligible_sales_totals\<close>, \<^verbatim>\<open>seller_target_factor\<close>,
  \<^verbatim>\<open>commission_rate\<close> and \<^verbatim>\<open>compute_sale_metrics\<close>.

  Modelling decisions, which hold for every definition below:
  \<^item> a Python \<^verbatim>\<open>float\<close> and an SQLite \<^verbatim>\<open>REAL\<close> are a \<^typ>\<open>real\<close>; rounding, infinities
    and NaN are not modelled;
  \<^item> a Python \<^verbatim>\<open>str\<close> and an SQLite \<^verbatim>\<open>TEXT\<close> are a \<^typ>\<open>string\<close>, whose characters
    are read as the code points 0 to 255;
  \<^item> a nullable column is an \<^typ>\<open>'a option\<close>, \<open>None\<close> being \<^verbatim>\<open>None\<close> / \<^verbatim>\<open>NULL\<close>;
  \<^item> a raised exception is the left injection of a sum: every float division goes
    through \<open>py_div\<close>, which raises on a zero divisor as Python does;
  \<^item> the rows of table \<^verbatim>\<open>sales\<close> are a list of records, the two dictionaries
    \<^verbatim>\<open>totals\<close> and \<^verbatim>\<open>targets\<close> are maps, and the three percentages that
    \<^verbatim>\<open>get_rates()\<close> reads from table \<^verbatim>\<open>settings\<close> are passed in as a triple.
\<close>

subsection \<open>Errors and float division\<close>

datatype error = ValueError | ZeroDivisionError

definition bindE :: "error + 'a \<Rightarrow> ('a \<Rightarrow> error + 'b) \<Rightarrow> error + 'b" where
  "bindE x f = (case x of Inl e \<Rightarrow> Inl e | Inr v \<Rightarrow> f v)"

definition py_div :: "real \<Rightarrow> real \<Rightarrow> error + real" where
  "py_div a b = (if b = 0 then Inl ZeroDivisionError else Inr (a / b))"

text \<open>\<^verbatim>\<open>x or d\<close> on an optional float: \<^verbatim>\<open>None\<close> and \<^verbatim>\<open>0.0\<close> are both falsy.\<close>

definition float_or :: "real option \<Rightarrow> real \<Rightarrow> real" where
  "float_or x d = (case x of None \<Rightarrow> d | Some v \<Rightarrow> if v = 0 then d else v)"

text \<open>\<^verbatim>\<open>x or d\<close> on an optional string: \<^verbatim>\<open>None\<close> and \<^verbatim>\<open>""\<close> are both falsy.\<close>

definition str_or :: "string option \<Rightarrow> string \<Rightarrow> string" where
  "str_or x d = (case x of None \<Rightarrow> d | Some s \<Rightarrow> if s = [] then d else s)"

definition truthy :: "string option \<Rightarrow> bool" where
  "truthy x = (case x of None \<Rightarrow> False | Some s \<Rightarrow> s \<noteq> [])"

subsection \<open>Strings\<close>

text \<open>
  \<^verbatim>\<open>str.strip()\<close> removes leading and trailing white space, \<^verbatim>\<open>str.lower()\<close> maps the
  upper-case letters to lower case. Below code point 256 the white-space characters
  are 9 to 13, 28 to 32, 133 and 160, and the upper-case letters are 65 to 90 and 192
  to 222 without 215; each lower-case letter is 32 above its upper-case one, which is
  the same code with bit 5 set.
\<close>

definition isspace :: "char \<Rightarrow> bool" where
  "isspace c = ((of_char c :: nat) \<in> {9, 10, 11, 12, 13, 28, 29, 30, 31, 32, 133, 160})"

definition strip :: "string \<Rightarrow> string" where
  "strip s = rev (dropWhile isspace (rev (dropWhile isspace s)))"

definition isupper :: "char \<Rightarrow> bool" where
  "isupper c = (let n = (of_char c :: nat) in
     (65 \<le> n \<and> n \<le> 90) \<or> (192 \<le> n \<and> n \<le> 222 \<and> n \<noteq> 215))"

definition lower_char :: "char \<Rightarrow> char" where
  "lower_char c = (if isupper c
     then (case c of Char b0 b1 b2 b3 b4 b5 b6 b7 \<Rightarrow> Char b0 b1 b2 b3 b4 True b6 b7)
     else c)"

definition lower :: "string \<Rightarrow> string" where
  "lower s = map lower_char s"

text \<open>
  Strings compare by code point, character by character, a proper prefix being
  smaller: the order of Python's \<^verbatim>\<open><\<close> on \<^verbatim>\<open>str\<close> and of SQLite's BINARY collation.
\<close>

fun str_less :: "string \<Rightarrow> string \<Rightarrow> bool" where
  "str_less [] [] = False"
| "str_less [] (y # ys) = True"
| "str_less (x # xs) [] = False"
| "str_less (x # xs) (y # ys) =
     (if (of_char x :: nat) < of_char y then True
      else if (of_char y :: nat) < of_char x then False
      else str_less xs ys)"

text \<open>\<^verbatim>\<open>max(a, b)\<close> returns \<^verbatim>\<open>a\<close> unless \<^verbatim>\<open>b\<close> is strictly greater.\<close>

definition py_max :: "string \<Rightarrow> string \<Rightarrow> string" where
  "py_max a b = (if str_less a b then b else a)"

subsection \<open>Decimal digits\<close>

definition isdigit :: "char \<Rightarrow> bool" where
  "isdigit c = (48 \<le> (of_char c :: nat) \<and> (of_char c :: nat) \<le> 57)"

definition digit_char :: "nat \<Rightarrow> char" where
  "digit_char n = ''0123456789'' ! (n mod 10)"

text \<open>The value of the longest prefix of decimal digits, from an accumulator.\<close>

fun digits_val :: "nat \<Rightarrow> string \<Rightarrow> nat" where
  "digits_val acc [] = acc"
| "digits_val acc (c # cs) =
     (if isdigit c then digits_val (10 * acc + (of_char c - 48)) cs else acc)"

text \<open>An integer printed without padding, as \<^verbatim>\<open>f"{n}"\<close> does.\<close>

fun dec :: "nat \<Rightarrow> string" where
  "dec n = (if n < 10 then [digit_char n] else dec (n div 10) @ [digit_char (n mod 10)])"

declare dec.simps [simp del]

definition pad2 :: "nat \<Rightarrow> string" where
  "pad2 n = [digit_char (n div 10), digit_char (n mod 10)]"

definition pad4 :: "nat \<Rightarrow> string" where
  "pad4 n = pad2 (n div 100) @ pad2 (n mod 100)"

subsection \<open>Calendar dates\<close>

text \<open>
  A \<^verbatim>\<open>datetime.date\<close>: a year from 1 to 9999, a month and a day of that month.
  \<open>isoformat\<close> is \<^verbatim>\<open>date.isoformat()\<close>, the text \<^verbatim>\<open>YYYY-MM-DD\<close> that \<^verbatim>\<open>parse_date\<close>
  stores in the three date columns.
\<close>

record date =
  year :: nat
  month :: nat
  day :: nat

definition is_leap :: "nat \<Rightarrow> bool" where
  "is_leap y = (y mod 4 = 0 \<and> (y mod 100 \<noteq> 0 \<or> y mod 400 = 0))"

definition days_in_month :: "nat \<Rightarrow> nat \<Rightarrow> nat" where
  "days_in_month y m =
     (if m = 2 then (if is_leap y then 29 else 28)
      else if m = 4 \<or> m = 6 \<or> m = 9 \<or> m = 11 then 30 else 31)"

definition valid_date :: "date \<Rightarrow> bool" where
  "valid_date d = (1 \<le> year d \<and> year d \<le> 9999 \<and> 1 \<le> month d \<and> month d \<le> 12
     \<and> 1 \<le> day d \<and> day d \<le> days_in_month (year d) (month d))"

definition isoformat :: "date \<Rightarrow> string" where
  "isoformat d = pad4 (year d) @ ''-'' @ pad2 (month d) @ ''-'' @ pad2 (day d)"

text \<open>The chronological order of dates.\<close>

definition date_less :: "date \<Rightarrow> date \<Rightarrow> bool" where
  "date_less a b = (year a < year b
     \<or> (year a = year b \<and> (month a < month b \<or> (month a = month b \<and> day a < day b))))"

text \<open>
  \<^verbatim>\<open>datetime.fromisoformat(s).date()\<close> on a text of the form \<^verbatim>\<open>YYYY-MM-DD\<close>: the three
  fields are read as decimal numbers and must form a date of the calendar, otherwise
  \<^verbatim>\<open>ValueError\<close> is raised. Every other text is modelled as \<^verbatim>\<open>ValueError\<close> too;
  Python accepts further ISO 8601 spellings (a time part, and from version 3.11 the
  basic and week formats), which \<^verbatim>\<open>parse_date\<close> never stores.
\<close>

definition fromisoformat :: "string \<Rightarrow> error + date" where
  "fromisoformat s =
     (if length s = 10 \<and> s ! 4 = CHR ''-'' \<and> s ! 7 = CHR ''-''
         \<and> list_all isdigit (take 4 s @ take 2 (drop 5 s) @ drop 8 s)
      then (let d = \<lparr>year = digits_val 0 (take 4 s),
                     month = digits_val 0 (take 2 (drop 5 s)),
                     day = digits_val 0 (drop 8 s)\<rparr>
            in if valid_date d then Inr d else Inl ValueError)
      else Inl ValueError)"

subsection \<open>Helpers of app.py\<close>

definition MIN_MARGIN :: real where
  "MIN_MARGIN = 0.20"

text \<open>The parameter \<^verbatim>\<open>tl\<close> of the source is \<open>tlv\<close> here (\<open>tl\<close> is the tail of a list).\<close>

definition eur_from_tl :: "real option \<Rightarrow> real option \<Rightarrow> error + real" where
  "eur_from_tl tlv kur =
     (case tlv of None \<Rightarrow> Inr 0
      | Some t \<Rightarrow> (case kur of None \<Rightarrow> Inr 0
                  | Some k \<Rightarrow> if k = 0 then Inr 0 else py_div t k))"

text \<open>
  The month of a date is at least 1, so the truncated subtraction of \<^typ>\<open>nat\<close> in
  \<open>month dt - 1\<close> is the subtraction of the source.
\<close>

definition quarter_from_iso :: "string option \<Rightarrow> error + string option" where
  "quarter_from_iso iso_date =
     (if \<not> truthy iso_date then Inr None
      else bindE (fromisoformat (str_or iso_date [])) (\<lambda>dt.
        let q = (month dt - 1) div 3 + 1
        in Inr (Some (dec (year dt) @ ''-Q'' @ dec q))))"

definition later_date :: "string option \<Rightarrow> string option \<Rightarrow> string option" where
  "later_date a b =
     (if \<not> truthy a \<and> \<not> truthy b then None
      else if truthy a \<and> \<not> truthy b then a
      else if truthy b \<and> \<not> truthy a then b
      else (case (a, b) of (Some x, Some y) \<Rightarrow> Some (py_max x y) | _ \<Rightarrow> None))"

text \<open>\<^verbatim>\<open>(pct or 0.0) / 100.0\<close>\<close>

definition pct_to_rate :: "real \<Rightarrow> error + real" where
  "pct_to_rate pct = py_div (float_or (Some pct) 0) 100"

subsection \<open>Rows of table sales\<close>

text \<open>The columns of table \<^verbatim>\<open>sales\<close> that the computation reads.\<close>

record sale =
  seller_username :: string
  job_type :: "string option"
  collection_done_date :: "string option"
  delivery_done_date :: "string option"
  sale_eur :: "real option"
  purchase_eur :: "real option"
  international_shipping_eur :: "real option"
  local_kur :: "real option"
  ic_nakliye_tl :: "real option"
  gumruk_vergisi_tl :: "real option"
  ek_gumruk_tl :: "real option"
  gumruk_masraf_tl :: "real option"
  komisyon_tl :: "real option"
  diger_tl :: "real option"

text \<open>The six column names of \<^verbatim>\<open>LOCAL_TL_KEYS\<close>, as the selectors \<^verbatim>\<open>r[tl_key]\<close>.\<close>

definition LOCAL_TL_KEYS :: "(sale \<Rightarrow> real option) list" where
  "LOCAL_TL_KEYS = [ic_nakliye_tl, gumruk_vergisi_tl, ek_gumruk_tl,
                    gumruk_masraf_tl, komisyon_tl, diger_tl]"

type_synonym totals = "string \<times> string \<rightharpoonup> real"

subsection \<open>The aggregation query of fetch_eligible_sales_totals\<close>

text \<open>
  SQLite's \<^verbatim>\<open>substr(X, start, len)\<close> with a positive 1-based start, its two-argument
  \<^verbatim>\<open>max\<close> on non-null texts, \<^verbatim>\<open>CAST(text AS INTEGER)\<close> (white space is skipped, then
  an optional sign and the longest run of digits are read; no digits give 0), the
  integer division that truncates towards zero, and an integer printed by \<^verbatim>\<open>||\<close>.
\<close>

definition substr :: "string \<Rightarrow> nat \<Rightarrow> nat \<Rightarrow> string" where
  "substr x start len = take len (drop (start - 1) x)"

definition sql_max :: "string \<Rightarrow> string \<Rightarrow> string" where
  "sql_max a b = (if str_less a b then b else a)"

definition sql_isspace :: "char \<Rightarrow> bool" where
  "sql_isspace c = ((of_char c :: nat) \<in> {9, 10, 11, 12, 13, 32})"

definition sql_cast_int :: "string \<Rightarrow> int" where
  "sql_cast_int s =
     (case dropWhile sql_isspace s of
        [] \<Rightarrow> 0
      | c # cs \<Rightarrow>
          if c = CHR ''-'' then - int (digits_val 0 cs)
          else if c = CHR ''+'' then int (digits_val 0 cs)
          else int (digits_val 0 (c # cs)))"

definition sql_div :: "int \<Rightarrow> int \<Rightarrow> int" where
  "sql_div a b = (if (a < 0) = (b < 0) then \<bar>a\<bar> div \<bar>b\<bar> else - (\<bar>a\<bar> div \<bar>b\<bar>))"

definition sql_int_text :: "int \<Rightarrow> string" where
  "sql_int_text i = (if i < 0 then CHR ''-'' # dec (nat (- i)) else dec (nat i))"

text \<open>
  One row of the common table expression \<^verbatim>\<open>elig\<close>: \<^verbatim>\<open>(seller_username, sale_eur,
  hak_date, m, y)\<close> for a row of \<^verbatim>\<open>sales\<close> that passes the \<^verbatim>\<open>WHERE\<close> clause, and
  \<open>None\<close> for a row that does not.
\<close>

definition elig :: "sale \<Rightarrow> (string \<times> real \<times> string \<times> int \<times> string) option" where
  "elig r =
     (case (collection_done_date r, delivery_done_date r, sale_eur r) of
        (Some c, Some d, Some p) \<Rightarrow>
          if c \<noteq> [] \<and> d \<noteq> []
          then Some (seller_username r, p, sql_max c d,
                     sql_cast_int (substr (sql_max c d) 6 2),
                     substr (sql_max c d) 1 4)
          else None
      | _ \<Rightarrow> None)"

text \<open>
  The outer \<^verbatim>\<open>SELECT\<close> before grouping: the key \<^verbatim>\<open>(seller_username, quarter)\<close> of an
  \<^verbatim>\<open>elig\<close> row with its \<^verbatim>\<open>sale_eur\<close>.
\<close>

definition quarter_row :: "string \<times> real \<times> string \<times> int \<times> string \<Rightarrow> (string \<times> string) \<times> real" where
  "quarter_row e =
     (case e of (s, p, h, m, y) \<Rightarrow>
        ((s, y @ ''-Q'' @ sql_int_text (sql_div (m - 1) 3 + 1)), p))"

definition quarter_rows :: "sale list \<Rightarrow> ((string \<times> string) \<times> real) list" where
  "quarter_rows sales = map quarter_row (List.map_filter elig sales)"

text \<open>
  \<^verbatim>\<open>GROUP BY seller_username, quarter\<close> with \<^verbatim>\<open>SUM(sale_eur)\<close>, read into the
  dictionary \<^verbatim>\<open>out\<close>: a key is present when some row has it, and its value is
  \<^verbatim>\<open>float(total_sales or 0.0)\<close>.
\<close>

definition fetch_eligible_sales_totals :: "sale list \<Rightarrow> totals" where
  "fetch_eligible_sales_totals sales =
     (\<lambda>k. let vs = map snd (filter (\<lambda>kv. fst kv = k) (quarter_rows sales))
          in if vs = [] then None else Some (float_or (Some (sum_list vs)) 0))"

subsection \<open>Target factor and commission rate\<close>

definition seller_target_factor ::
  "string \<Rightarrow> string option \<Rightarrow> totals \<Rightarrow> totals \<Rightarrow> error + real" where
  "seller_target_factor seller quarter totals targets =
     (if \<not> truthy quarter then Inr 0
      else (let q = str_or quarter [] in
        case targets (seller, q) of
          None \<Rightarrow> Inr 0
        | Some tgt \<Rightarrow>
            if tgt = 0 \<or> tgt \<le> 0 then Inr 0
            else (let total = (case totals (seller, q) of None \<Rightarrow> 0 | Some t \<Rightarrow> t) in
              bindE (if tgt > 0 then py_div total tgt else Inr 0) (\<lambda>ratio.
                if ratio \<ge> 1 then Inr 1
                else if ratio \<ge> 0.8 then Inr 0.5
                else Inr 0))))"

definition commission_rate :: "real option \<Rightarrow> string \<Rightarrow> real \<Rightarrow> real \<Rightarrow> error + real" where
  "commission_rate margin jobtype std_pct prj_pct =
     (case margin of
        None \<Rightarrow> Inr 0
      | Some mg \<Rightarrow>
          (let jt = lower (strip (str_or (Some jobtype) [])) in
           bindE (pct_to_rate std_pct) (\<lambda>std.
           bindE (pct_to_rate prj_pct) (\<lambda>prj.
             if jt = ''standart''
             then (if mg < MIN_MARGIN then Inr 0 else Inr std)
             else if mg \<ge> MIN_MARGIN then Inr prj
             else if MIN_MARGIN > 0
                  then bindE (py_div mg MIN_MARGIN) (\<lambda>x. Inr (prj * x))
                  else Inr 0))))"

subsection \<open>compute_sale_metrics\<close>

text \<open>
  The reason texts of the source are Turkish sentences; each is a constructor here, in
  the order in which the source tests for them:
  \<open>NoAttribution\<close> the sale is not eligible, \<open>NoQuarter\<close> no quarter was found,
  \<open>NoTarget\<close> no target was entered for the quarter, \<open>BelowThreshold\<close> the target is
  met to less than 80 percent, \<open>MarginTooLow\<close> a standard job has a margin under 20
  percent, \<open>Accrues\<close> the commission accrues.
\<close>

datatype reason = NoAttribution | NoQuarter | NoTarget | BelowThreshold | MarginTooLow | Accrues

text \<open>The returned dictionary; its key \<^verbatim>\<open>sale_eur\<close> is the field \<open>m_sale_eur\<close>.\<close>

record metrics =
  m_sale_eur :: real
  total_cost :: real
  profit :: real
  margin :: "real option"
  eligible :: bool
  hak_tarih :: "string option"
  quarter :: "string option"
  target_factor :: real
  rate :: real
  seller_comm :: real
  override :: real
  reason :: reason

text \<open>The loop over \<^verbatim>\<open>LOCAL_TL_KEYS\<close>, from the running value of \<^verbatim>\<open>local_sum\<close>.\<close>

primrec local_sum_loop :: "(sale \<Rightarrow> real option) list \<Rightarrow> sale \<Rightarrow> real \<Rightarrow> error + real" where
  "local_sum_loop [] r local_sum = Inr local_sum"
| "local_sum_loop (tl_key # ks) r local_sum =
     bindE (eur_from_tl (tl_key r) (local_kur r)) (\<lambda>e. local_sum_loop ks r (local_sum + e))"

definition compute_sale_metrics ::
  "real \<times> real \<times> real \<Rightarrow> sale \<Rightarrow> totals \<Rightarrow> totals \<Rightarrow> error + metrics" where
  "compute_sale_metrics rates r totals targets =
     (case rates of (std_pct, prj_pct, ovr_pct) \<Rightarrow>
      let sale_eur' = float_or (sale_eur r) 0;
          purchase_eur' = float_or (purchase_eur r) 0;
          intl = float_or (international_shipping_eur r) 0
      in
      bindE (local_sum_loop LOCAL_TL_KEYS r 0) (\<lambda>local_sum.
      let total_cost' = purchase_eur' + intl + local_sum;
          profit' = sale_eur' - total_cost'
      in
      bindE (if sale_eur' > 0 then bindE (py_div profit' sale_eur') (\<lambda>x. Inr (Some x))
             else Inr None) (\<lambda>margin'.
      let eligible' = (truthy (collection_done_date r) \<and> truthy (delivery_done_date r));
          hak_tarih' = (if eligible'
                        then later_date (collection_done_date r) (delivery_done_date r)
                        else None)
      in
      bindE (if truthy hak_tarih' then quarter_from_iso hak_tarih' else Inr None) (\<lambda>quarter'.
      bindE (commission_rate margin' (str_or (job_type r) []) std_pct prj_pct) (\<lambda>rate'.
      bindE (seller_target_factor (seller_username r) quarter' totals targets) (\<lambda>factor.
      let seller_comm' = (if eligible' then sale_eur' * rate' * factor else 0) in
      bindE (if eligible' \<and> seller_username r \<in> {''pinar'', ''burcu''}
             then bindE (pct_to_rate ovr_pct) (\<lambda>ovr. Inr (sale_eur' * ovr * factor))
             else Inr 0) (\<lambda>override'.
      let reason' =
            (if \<not> eligible' then NoAttribution
             else if quarter' = None then NoQuarter
             else (case targets (seller_username r, str_or quarter' []) of
                     None \<Rightarrow> NoTarget
                   | Some tgt \<Rightarrow>
                       if tgt = 0 \<or> tgt \<le> 0 then NoTarget
                       else if factor = 0 then BelowThreshold
                       else if lower (strip (str_or (job_type r) [])) = ''standart''
                               \<and> margin' \<noteq> None
                               \<and> (case margin' of Some mg \<Rightarrow> mg < MIN_MARGIN | None \<Rightarrow> False)
                            then MarginTooLow
                            else Accrues))
      in Inr \<lparr>m_sale_eur = sale_eur', total_cost = total_cost', profit = profit',
               margin = margin', eligible = eligible', hak_tarih = hak_tarih',
               quarter = quarter', target_factor = factor, rate = rate',
               seller_comm = seller_comm', override = override',
               reason = reason'\<rparr>)))))))"

subsection \<open>Notions used in the statements\<close>

text \<open>
  The contribution of one cost component in the reference currency: the component
  divided by the local rate, and 0 when the component is null or the rate is null or
  zero.
\<close>

definition eur_value :: "real option \<Rightarrow> real option \<Rightarrow> real" where
  "eur_value tlv kur =
     (case tlv of None \<Rightarrow> 0
      | Some t \<Rightarrow> (case kur of None \<Rightarrow> 0 | Some k \<Rightarrow> if k = 0 then 0 else t / k))"

text \<open>The job types that \<^verbatim>\<open>commission_rate\<close> treats as standard jobs.\<close>

definition is_standart :: "string \<Rightarrow> bool" where
  "is_standart jt = (lower (strip jt) = ''standart'')"

text \<open>The values that \<^verbatim>\<open>commission_rate\<close> and \<^verbatim>\<open>seller_target_factor\<close> return.\<close>

definition rate_value :: "real option \<Rightarrow> string \<Rightarrow> real \<Rightarrow> real \<Rightarrow> real" where
  "rate_value mo jt std_pct prj_pct =
     (case mo of None \<Rightarrow> 0
      | Some mg \<Rightarrow>
          if is_standart jt then (if mg \<ge> 0.2 then std_pct / 100 else 0)
          else if mg \<ge> 0.2 then prj_pct / 100 else prj_pct / 100 * (mg / 0.2))"

definition factor_value :: "string \<Rightarrow> string option \<Rightarrow> totals \<Rightarrow> totals \<Rightarrow> real" where
  "factor_value seller qtr totals targets =
     (if \<not> truthy qtr then 0
      else case targets (seller, str_or qtr []) of
             None \<Rightarrow> 0
           | Some tgt \<Rightarrow>
               if tgt \<le> 0 then 0
               else if (case totals (seller, str_or qtr []) of None \<Rightarrow> 0 | Some t \<Rightarrow> t) / tgt \<ge> 1
                    then 1
               else if (case totals (seller, str_or qtr []) of None \<Rightarrow> 0 | Some t \<Rightarrow> t) / tgt \<ge> 0.8
                    then 1 / 2
               else 0)"

text \<open>
  The attribution date and the quarter that \<^verbatim>\<open>compute_sale_metrics\<close> derives from
  the two completion dates of a row; the quarter is the one step that can raise.
\<close>

definition sale_hak_tarih :: "sale \<Rightarrow> string option" where
  "sale_hak_tarih r =
     (if truthy (collection_done_date r) \<and> truthy (delivery_done_date r)
      then later_date (collection_done_date r) (delivery_done_date r) else None)"

definition sale_quarter :: "sale \<Rightarrow> error + string option" where
  "sale_quarter r =
     (if truthy (sale_hak_tarih r) then quarter_from_iso (sale_hak_tarih r) else Inr None)"

text \<open>
  A date column as \<^verbatim>\<open>parse_date\<close> fills it: null, or the ISO text of a calendar
  date; the empty text, which the code treats like null, is admitted too.
\<close>

definition stored_date :: "string option \<Rightarrow> bool" where
  "stored_date x =
     (case x of None \<Rightarrow> True
      | Some s \<Rightarrow> s = [] \<or> (case fromisoformat s of Inr d \<Rightarrow> True | Inl e \<Rightarrow> False))"

text \<open>The chronologically later of two dates.\<close>

definition later_of :: "date \<Rightarrow> date \<Rightarrow> date" where
  "later_of a b = (if date_less a b then b else a)"

text \<open>
  The key \<^verbatim>\<open>(seller_username, quarter)\<close> under which the aggregation query counts a
  row, if it counts it, and the rows of a table that it counts under a given key.
\<close>

definition aggregated_key :: "sale \<Rightarrow> (string \<times> string) option" where
  "aggregated_key r = map_option (\<lambda>e. fst (quarter_row e)) (elig r)"



text \<open>
  Scenario A of the specification: a standard job sold by pinar for 1000, collected in
  January and delivered in February 2024, and a target of 1000 for that quarter.
\<close>

definition saleA :: sale where
  "saleA = \<lparr>seller_username = ''pinar'', job_type = Some ''Standart'',
     collection_done_date = Some ''2024-01-15'', delivery_done_date = Some ''2024-02-20'',
     sale_eur = Some 1000, purchase_eur = Some 600, international_shipping_eur = Some 50,
     local_kur = Some 10, ic_nakliye_tl = Some 0, gumruk_vergisi_tl = Some 0,
     ek_gumruk_tl = Some 0, gumruk_masraf_tl = Some 0, komisyon_tl = Some 0,
     diger_tl = Some 0\<rparr>"

definition targetsA :: totals where
  "targetsA = [(''pinar'', ''2024-Q1'') \<mapsto> 1000]"

text \<open>
  The row of scenario A with a local rate of zero, one cost component entered and one
  left null.
\<close>

definition saleB :: sale where
  "saleB = saleA\<lparr>local_kur := Some 0, ic_nakliye_tl := Some 500, diger_tl := None\<rparr>"

text \<open>The two completion dates of scenario A as calendar dates.\<close>

definition date_collected :: date where
  "date_collected = \<lparr>year = 2024, month = 1, day = 15\<rparr>"

definition date_delivered :: date where
  "date_delivered = \<lparr>year = 2024, month = 2, day = 20\<rparr>"

text \<open>
  A second standard job of the same seller in the same quarter, and the row of
  scenario A with a null sale price.
\<close>

definition saleC :: sale where
  "saleC = saleA\<lparr>sale_eur := Some 500, purchase_eur := Some 300\<rparr>"

definition saleN :: sale where
  "saleN = saleA\<lparr>sale_eur := None\<rparr>"

section \<open>Basic facts\<close>

subsection \<open>Errors and optional values\<close>

lemma bindE_Inr [simp]: "bindE (Inr v) f = f v"
  by (simp add: bindE_def)

lemma bindE_Inl [simp]: "bindE (Inl e) f = Inl e"
  by (simp add: bindE_def)

lemma str_or_Some_Nil [simp]: "str_or (Some s) [] = s"
  by (simp add: str_or_def)

lemma truthy_simps [simp]: "\<not> truthy None" "truthy (Some s) \<longleftrightarrow> s \<noteq> []"
  by (simp_all add: truthy_def)

lemma pct_to_rate_eq: "pct_to_rate pct = Inr (pct / 100)"
  by (simp add: pct_to_rate_def float_or_def py_div_def)

lemma eur_from_tl_eq: "eur_from_tl tlv kur = Inr (eur_value tlv kur)"
  by (simp add: eur_from_tl_def eur_value_def py_div_def split: option.splits)

lemma local_sum_loop_eq:
  "local_sum_loop ks r acc = Inr (acc + (\<Sum>k\<leftarrow>ks. eur_value (k r) (local_kur r)))"
  by (induction ks arbitrary: acc) (simp_all add: eur_from_tl_eq)

lemma commission_rate_eq:
  "commission_rate mo jt std_pct prj_pct = Inr (rate_value mo jt std_pct prj_pct)"
  by (cases mo)
     (simp_all add: commission_rate_def rate_value_def is_standart_def pct_to_rate_eq
        MIN_MARGIN_def py_div_def)

lemma seller_target_factor_eq:
  "seller_target_factor seller qtr totals targets = Inr (factor_value seller qtr totals targets)"
  by (simp add: seller_target_factor_def factor_value_def py_div_def Let_def split: option.splits)

subsection \<open>compute_sale_metrics in one piece\<close>

lemma Inr_if: "(if c then Inr a else Inr b) = Inr (if c then a else b)"
  by simp

lemma compute_sale_metrics_unfold:
  "compute_sale_metrics (std_pct, prj_pct, ovr_pct) r totals targets =
     bindE (sale_quarter r) (\<lambda>q.
       let p = float_or (sale_eur r) 0;
           tc = float_or (purchase_eur r) 0 + float_or (international_shipping_eur r) 0
                  + (\<Sum>k\<leftarrow>LOCAL_TL_KEYS. eur_value (k r) (local_kur r));
           mg = (if p > 0 then Some ((p - tc) / p) else None);
           el = (truthy (collection_done_date r) \<and> truthy (delivery_done_date r));
           rt = rate_value mg (str_or (job_type r) []) std_pct prj_pct;
           f = factor_value (seller_username r) q totals targets
       in Inr \<lparr>m_sale_eur = p, total_cost = tc, profit = p - tc, margin = mg,
               eligible = el, hak_tarih = sale_hak_tarih r, quarter = q,
               target_factor = f, rate = rt,
               seller_comm = (if el then p * rt * f else 0),
               override = (if el \<and> seller_username r \<in> {''pinar'', ''burcu''}
                           then p * (ovr_pct / 100) * f else 0),
               reason = (if \<not> el then NoAttribution
                         else if q = None then NoQuarter
                         else (case targets (seller_username r, str_or q []) of
                                 None \<Rightarrow> NoTarget
                               | Some tgt \<Rightarrow>
                                   if tgt = 0 \<or> tgt \<le> 0 then NoTarget
                                   else if f = 0 then BelowThreshold
                                   else if lower (strip (str_or (job_type r) [])) = ''standart''
                                           \<and> mg \<noteq> None
                                           \<and> (case mg of Some x \<Rightarrow> x < MIN_MARGIN
                                                | None \<Rightarrow> False)
                                        then MarginTooLow else Accrues))\<rparr>)"
  unfolding compute_sale_metrics_def Let_def prod.case
  apply (fold sale_hak_tarih_def)
  apply (fold sale_quarter_def)
  apply (cases "sale_quarter r")
   apply (simp_all add: local_sum_loop_eq py_div_def commission_rate_eq seller_target_factor_eq
      pct_to_rate_eq Inr_if cong: if_cong)
  done

subsection \<open>Digits and dates\<close>

lemma digit_cases:
  assumes "k < (10::nat)"
  obtains "k = 0" | "k = 1" | "k = 2" | "k = 3" | "k = 4"
        | "k = 5" | "k = 6" | "k = 7" | "k = 8" | "k = 9"
  using assms by atomize_elim arith

lemma of_char_digit_char: "k < 10 \<Longrightarrow> (of_char (digit_char k) :: nat) = 48 + k"
  by (erule digit_cases) (simp_all add: digit_char_def)

lemma isdigit_digit_char [simp]: "isdigit (digit_char k)"
proof -
  have "k mod 10 < 10" by simp
  then have "(of_char (digit_char (k mod 10)) :: nat) = 48 + k mod 10"
    by (rule of_char_digit_char)
  moreover have "digit_char (k mod 10) = digit_char k"
    by (simp add: digit_char_def)
  ultimately show ?thesis by (simp add: isdigit_def)
qed

lemma digits_val_pad2: "n < 100 \<Longrightarrow> digits_val acc (pad2 n) = 100 * acc + n"
proof -
  assume n: "n < 100"
  then have a: "n div 10 < 10" and b: "n mod 10 < 10" by simp_all
  show ?thesis
    using n by (simp add: pad2_def of_char_digit_char [OF a] of_char_digit_char [OF b])
qed

lemma length_pad2 [simp]: "length (pad2 n) = 2"
  by (simp add: pad2_def)

lemma length_pad4 [simp]: "length (pad4 n) = 4"
  by (simp add: pad4_def)

lemma digits_val_append:
  "list_all isdigit xs \<Longrightarrow> digits_val acc (xs @ ys) = digits_val (digits_val acc xs) ys"
  by (induction xs arbitrary: acc) simp_all

lemma list_all_isdigit_pad2 [simp]: "list_all isdigit (pad2 n)"
  by (simp add: pad2_def)

lemma list_all_isdigit_pad4 [simp]: "list_all isdigit (pad4 n)"
  by (simp add: pad4_def)

lemma digits_val_pad4: "n < 10000 \<Longrightarrow> digits_val 0 (pad4 n) = n"
proof -
  assume n: "n < 10000"
  then have a: "n div 100 < 100" and b: "n mod 100 < 100" by simp_all
  show ?thesis
    by (simp add: pad4_def digits_val_append digits_val_pad2 [OF a] digits_val_pad2 [OF b])
qed

lemma isoformat_parts:
  "length (isoformat d) = 10"
  "isoformat d ! 4 = CHR ''-''"
  "isoformat d ! 7 = CHR ''-''"
  "take 4 (isoformat d) = pad4 (year d)"
  "take 2 (drop 5 (isoformat d)) = pad2 (month d)"
  "drop 8 (isoformat d) = pad2 (day d)"
  by (simp_all add: isoformat_def nth_append)

lemma valid_date_bounds:
  "valid_date d \<Longrightarrow> year d < 10000 \<and> month d < 100 \<and> day d < 100"
  by (auto simp: valid_date_def days_in_month_def split: if_splits)

lemma lex_divmod:
  fixes m n k :: nat
  assumes "0 < k"
  shows "m div k < n div k \<or> (m div k = n div k \<and> m mod k < n mod k) \<longleftrightarrow> m < n"
proof -
  have mk: "m mod k < k" "n mod k < k" using assms by simp_all
  have eq: "m < n \<longleftrightarrow> k * (m div k) + m mod k < k * (n div k) + n mod k" by simp
  show ?thesis
  proof (cases "m div k" "n div k" rule: linorder_cases)
    case less
    then have "m div k + 1 \<le> n div k" by simp
    then have "k * (m div k + 1) \<le> k * (n div k)" by (rule mult_le_mono2)
    then have "k * (m div k) + k \<le> k * (n div k)" by (simp add: algebra_simps)
    with mk have "k * (m div k) + m mod k < k * (n div k) + n mod k" by linarith
    with less eq show ?thesis by blast
  next
    case equal
    from eq have "m < n \<longleftrightarrow> k * (n div k) + m mod k < k * (n div k) + n mod k"
      unfolding equal .
    then have "m < n \<longleftrightarrow> m mod k < n mod k"
      by (simp only: add_less_cancel_left)
    with equal show ?thesis by simp
  next
    case greater
    then have "n div k + 1 \<le> m div k" by simp
    then have "k * (n div k + 1) \<le> k * (m div k)" by (rule mult_le_mono2)
    then have "k * (n div k) + k \<le> k * (m div k)" by (simp add: algebra_simps)
    with mk have "\<not> k * (m div k) + m mod k < k * (n div k) + n mod k" by linarith
    with greater eq show ?thesis by auto
  qed
qed

lemma str_less_append:
  "length a = length c \<Longrightarrow>
   str_less (a @ b) (c @ d) \<longleftrightarrow> str_less a c \<or> (a = c \<and> str_less b d)"
proof (induction a c rule: list_induct2)
  case Nil
  show ?case by simp
next
  case (Cons x xs y ys)
  have "(of_char x :: nat) = of_char y \<longleftrightarrow> x = y" by simp
  then show ?case using Cons.IH by auto
qed

lemma str_less_irrefl [simp]: "\<not> str_less a a"
  by (induction a) simp_all

lemma str_less_pad2:
  assumes "m < 100" "n < 100"
  shows "str_less (pad2 m) (pad2 n) \<longleftrightarrow> m < n"
proof -
  from assms have "m div 10 < 10" "m mod 10 < 10" "n div 10 < 10" "n mod 10 < 10"
    by simp_all
  then have "str_less (pad2 m) (pad2 n) \<longleftrightarrow>
      m div 10 < n div 10 \<or> (m div 10 = n div 10 \<and> m mod 10 < n mod 10)"
    by (auto simp: pad2_def of_char_digit_char)
  also have "\<dots> \<longleftrightarrow> m < n" by (rule lex_divmod) simp
  finally show ?thesis .
qed

lemma pad2_inject:
  assumes "m < 100" "n < 100"
  shows "pad2 m = pad2 n \<longleftrightarrow> m = n"
proof
  assume "pad2 m = pad2 n"
  then have "digits_val 0 (pad2 m) = digits_val 0 (pad2 n)" by simp
  with assms show "m = n" by (simp add: digits_val_pad2)
qed simp

lemma str_less_pad4:
  assumes "m < 10000" "n < 10000"
  shows "str_less (pad4 m) (pad4 n) \<longleftrightarrow> m < n"
proof -
  from assms have b: "m div 100 < 100" "m mod 100 < 100" "n div 100 < 100" "n mod 100 < 100"
    by simp_all
  then have "str_less (pad4 m) (pad4 n) \<longleftrightarrow>
      m div 100 < n div 100 \<or> (m div 100 = n div 100 \<and> m mod 100 < n mod 100)"
    by (simp add: pad4_def str_less_append str_less_pad2 pad2_inject)
  also have "\<dots> \<longleftrightarrow> m < n" by (rule lex_divmod) simp
  finally show ?thesis .
qed

lemma pad4_inject:
  assumes "m < 10000" "n < 10000"
  shows "pad4 m = pad4 n \<longleftrightarrow> m = n"
proof
  assume "pad4 m = pad4 n"
  then have "digits_val 0 (pad4 m) = digits_val 0 (pad4 n)" by simp
  with assms show "m = n" by (simp add: digits_val_pad4)
qed simp

lemma str_less_Cons_same [simp]: "str_less (c # xs) (c # ys) = str_less xs ys"
  by simp

lemma date_eta [simp]: "\<lparr>year = year d, month = month d, day = day d\<rparr> = (d::date)"
  by (cases d) simp

lemma fromisoformat_isoformat:
  assumes "valid_date d"
  shows "fromisoformat (isoformat d) = Inr d"
  using assms valid_date_bounds [OF assms]
  by (simp add: fromisoformat_def isoformat_parts digits_val_pad2 digits_val_pad4 Let_def)

lemma str_less_isoformat:
  assumes "valid_date a" "valid_date b"
  shows "str_less (isoformat a) (isoformat b) \<longleftrightarrow> date_less a b"
  using valid_date_bounds [OF assms(1)] valid_date_bounds [OF assms(2)]
  by (simp add: isoformat_def str_less_append str_less_pad4 str_less_pad2 pad4_inject
        pad2_inject date_less_def)

section \<open>Commission rate selection\<close>

lemma lower_strip_Standard: "lower (strip ''Standard'') = ''standard''"
  by (simp add: lower_def strip_def isspace_def lower_char_def isupper_def)

lemma lower_strip_padded_STANDART: "lower (strip '' STANDART '') = ''standart''"
  by code_simp

lemma lower_strip_Project: "lower (strip ''Project'') = ''project''"
  by (simp add: lower_def strip_def isspace_def lower_char_def isupper_def)

text \<open>
  Claim C1, as stated, at the job type \<^verbatim>\<open>"Standard"\<close>: the text is \<^verbatim>\<open>"Standard"\<close> up to
  case and white space and the margin 0.10 is below 0.20, yet the rate is not 0 but the
  scaled project rate 0.03 * (0.10 / 0.20) = 0.015. The source compares the trimmed,
  lower-cased job type with \<^verbatim>\<open>"standart"\<close>, the spelling that the form stores.
\<close>

theorem commission_rate_Standard_counterexample:
  "lower (strip ''Standard'') = lower ''Standard'' \<and> (1 / 10 :: real) < 0.20
     \<and> commission_rate (Some (1 / 10)) ''Standard'' 3 3 = Inr (3 / 200)
     \<and> commission_rate (Some (1 / 10)) ''Standard'' 3 3 \<noteq> Inr 0"
  by (simp add: commission_rate_eq rate_value_def is_standart_def lower_strip_Standard)
     (simp add: lower_def lower_char_def isupper_def)

text \<open>
  Claim C1, amended: for every job type that is \<^verbatim>\<open>"standart"\<close> after trimming and
  lower-casing (the stored value is \<^verbatim>\<open>"Standart"\<close>) and every defined margin,
  \<^verbatim>\<open>commission_rate\<close> returns the standard rate \<open>std_pct / 100\<close> when the margin is
  at least 0.20 and 0 when it is below. The function takes neither the totals nor the
  targets, so the result does not depend on the target factor.
\<close>

theorem commission_rate_standart:
  assumes "lower (strip jt) = ''standart''"
  shows "commission_rate (Some mg) jt std_pct prj_pct =
           Inr (if mg \<ge> 0.20 then std_pct / 100 else 0)"
  using assms by (simp add: commission_rate_eq rate_value_def is_standart_def)

theorem commission_rate_standart_witness:
  "lower (strip '' STANDART '') = ''standart''
     \<and> commission_rate (Some (1 / 10)) '' STANDART '' 3 3 = Inr 0
     \<and> commission_rate (Some (1 / 5)) '' STANDART '' 3 3 = Inr (3 / 100)"
  using commission_rate_standart [OF lower_strip_padded_STANDART, of "1 / 10" 3 3]
    commission_rate_standart [OF lower_strip_padded_STANDART, of "1 / 5" 3 3]
  by (simp add: lower_strip_padded_STANDART)

text \<open>
  Claim C2: for every job type that is not a standard job (\<^verbatim>\<open>"Project"\<close>,
  \<^verbatim>\<open>"Proje"\<close> or anything else that is not \<^verbatim>\<open>"standart"\<close> after trimming and
  lower-casing) and every defined margin, the rate is the project rate
  \<open>prj_pct / 100\<close> when the margin is at least 0.20, the margin 0.20 itself included,
  and \<open>project rate * (margin / 0.20)\<close> below, negative margins included.
\<close>

theorem commission_rate_project:
  assumes "lower (strip jt) \<noteq> ''standart''"
  shows "commission_rate (Some mg) jt std_pct prj_pct =
           Inr (if mg \<ge> 0.20 then prj_pct / 100 else prj_pct / 100 * (mg / 0.20))
         \<and> commission_rate (Some 0.20) jt std_pct prj_pct = Inr (prj_pct / 100)"
  using assms by (simp add: commission_rate_eq rate_value_def is_standart_def)

theorem commission_rate_project_witness:
  "lower (strip ''Project'') \<noteq> ''standart''
     \<and> commission_rate (Some (1 / 10)) ''Project'' 3 3 = Inr (3 / 200)
     \<and> commission_rate (Some (- 1 / 10)) ''Project'' 3 3 = Inr (- 3 / 200)
     \<and> commission_rate (Some (1 / 5)) ''Project'' 3 3 = Inr (3 / 100)"
proof -
  have h: "lower (strip ''Project'') \<noteq> ''standart''"
    by (simp add: lower_strip_Project)
  show ?thesis
    using h commission_rate_project [OF h, of "1 / 10" 3 3]
      commission_rate_project [OF h, of "- 1 / 10" 3 3]
    by simp
qed

section \<open>Target factor\<close>

lemma seller_target_factor_ratio:
  assumes "truthy qtr" "targets (seller, str_or qtr []) = Some tgt" "0 < tgt"
    and "ratio = (case totals (seller, str_or qtr []) of None \<Rightarrow> 0 | Some t \<Rightarrow> t) / tgt"
  shows "seller_target_factor seller qtr totals targets =
           Inr (if ratio \<ge> 1 then 1 else if ratio \<ge> 0.8 then 1 / 2 else 0)"
  using assms by (simp add: seller_target_factor_eq factor_value_def)

lemma seller_target_factor_zero:
  "\<not> truthy qtr \<or> targets (seller, str_or qtr []) = None
     \<or> (\<exists>tgt. targets (seller, str_or qtr []) = Some tgt \<and> tgt \<le> 0)
   \<Longrightarrow> seller_target_factor seller qtr totals targets = Inr 0"
  by (auto simp: seller_target_factor_eq factor_value_def)

text \<open>
  Claim C3: \<^verbatim>\<open>seller_target_factor\<close> returns one of 0, 0.5 and 1. It returns 0 when the
  quarter is null or empty, when no target is stored for (seller, quarter), and when
  the stored target is at most 0. Otherwise, with \<open>ratio = total_sold / target\<close>, where
  a missing total counts as 0, it returns 1 exactly when \<open>ratio \<ge> 1\<close>, 0.5 exactly when
  \<open>0.8 \<le> ratio < 1\<close>, and 0 exactly when \<open>ratio < 0.8\<close>.
\<close>

theorem seller_target_factor_levels:
  "seller_target_factor seller qtr totals targets \<in> {Inr 0, Inr (1 / 2), Inr 1}
   \<and> (\<not> truthy qtr \<longrightarrow> seller_target_factor seller qtr totals targets = Inr 0)
   \<and> (targets (seller, str_or qtr []) = None
        \<longrightarrow> seller_target_factor seller qtr totals targets = Inr 0)
   \<and> (\<forall>tgt. targets (seller, str_or qtr []) = Some tgt \<and> tgt \<le> 0
        \<longrightarrow> seller_target_factor seller qtr totals targets = Inr 0)
   \<and> (\<forall>tgt total_sold ratio.
         truthy qtr \<and> targets (seller, str_or qtr []) = Some tgt \<and> 0 < tgt
         \<and> total_sold = (case totals (seller, str_or qtr []) of None \<Rightarrow> 0 | Some t \<Rightarrow> t)
         \<and> ratio = total_sold / tgt
        \<longrightarrow> (seller_target_factor seller qtr totals targets = Inr 1 \<longleftrightarrow> ratio \<ge> 1)
          \<and> (seller_target_factor seller qtr totals targets = Inr (1 / 2)
                \<longleftrightarrow> 0.8 \<le> ratio \<and> ratio < 1)
          \<and> (seller_target_factor seller qtr totals targets = Inr 0 \<longleftrightarrow> ratio < 0.8))"
proof -
  let ?tf = "seller_target_factor seller qtr totals targets"
  have levels: "?tf \<in> {Inr 0, Inr (1 / 2), Inr 1}"
    by (simp add: seller_target_factor_eq factor_value_def split: option.splits)
  have zero: "\<not> truthy qtr \<longrightarrow> ?tf = Inr 0"
    "targets (seller, str_or qtr []) = None \<longrightarrow> ?tf = Inr 0"
    "\<forall>tgt. targets (seller, str_or qtr []) = Some tgt \<and> tgt \<le> 0 \<longrightarrow> ?tf = Inr 0"
    using seller_target_factor_zero [of qtr targets seller totals] by blast+
  have ratio: "(?tf = Inr 1 \<longleftrightarrow> ratio \<ge> 1)
      \<and> (?tf = Inr (1 / 2) \<longleftrightarrow> 0.8 \<le> ratio \<and> ratio < 1)
      \<and> (?tf = Inr 0 \<longleftrightarrow> ratio < 0.8)"
    if "truthy qtr" "targets (seller, str_or qtr []) = Some tgt" "0 < tgt"
      "total_sold = (case totals (seller, str_or qtr []) of None \<Rightarrow> 0 | Some t \<Rightarrow> t)"
      "ratio = total_sold / tgt"
    for tgt total_sold ratio
  proof -
    have "?tf = Inr (if ratio \<ge> 1 then 1 else if ratio \<ge> 0.8 then 1 / 2 else 0)"
      using that
        seller_target_factor_ratio [where qtr = qtr and targets = targets and seller = seller
          and tgt = tgt and ratio = ratio and totals = totals]
      by blast
    then show ?thesis by auto
  qed
  from levels zero ratio show ?thesis by blast
qed

theorem seller_target_factor_levels_witness:
  "seller_target_factor ''pinar'' (Some ''2024-Q1'')
      [(''pinar'', ''2024-Q1'') \<mapsto> 1200] [(''pinar'', ''2024-Q1'') \<mapsto> 1000] = Inr 1
   \<and> seller_target_factor ''pinar'' (Some ''2024-Q1'')
      [(''pinar'', ''2024-Q1'') \<mapsto> 900] [(''pinar'', ''2024-Q1'') \<mapsto> 1000] = Inr (1 / 2)
   \<and> seller_target_factor ''pinar'' (Some ''2024-Q1'')
      [(''pinar'', ''2024-Q1'') \<mapsto> 799] [(''pinar'', ''2024-Q1'') \<mapsto> 1000] = Inr 0
   \<and> seller_target_factor ''pinar'' (Some ''2024-Q1'')
      [(''pinar'', ''2024-Q1'') \<mapsto> 1200] Map.empty = Inr 0
   \<and> seller_target_factor ''pinar'' None
      [(''pinar'', ''2024-Q1'') \<mapsto> 1200] [(''pinar'', ''2024-Q1'') \<mapsto> 1000] = Inr 0"
  using
    seller_target_factor_levels [of "''pinar''" "Some ''2024-Q1''"
      "[(''pinar'', ''2024-Q1'') \<mapsto> 1200]" "[(''pinar'', ''2024-Q1'') \<mapsto> 1000]"]
    seller_target_factor_levels [of "''pinar''" "Some ''2024-Q1''"
      "[(''pinar'', ''2024-Q1'') \<mapsto> 900]" "[(''pinar'', ''2024-Q1'') \<mapsto> 1000]"]
    seller_target_factor_levels [of "''pinar''" "Some ''2024-Q1''"
      "[(''pinar'', ''2024-Q1'') \<mapsto> 799]" "[(''pinar'', ''2024-Q1'') \<mapsto> 1000]"]
    seller_target_factor_levels [of "''pinar''" "Some ''2024-Q1''"
      "[(''pinar'', ''2024-Q1'') \<mapsto> 1200]" "Map.empty"]
    seller_target_factor_levels [of "''pinar''" "None"
      "[(''pinar'', ''2024-Q1'') \<mapsto> 1200]" "[(''pinar'', ''2024-Q1'') \<mapsto> 1000]"]
  by simp

section \<open>The metrics of one sale\<close>

subsection \<open>When the computation returns\<close>

lemma py_max_cases: "py_max a b = a \<or> py_max a b = b"
  by (simp add: py_max_def)

lemma later_date_Some:
  "x \<noteq> [] \<Longrightarrow> y \<noteq> [] \<Longrightarrow> later_date (Some x) (Some y) = Some (py_max x y)"
  by (simp add: later_date_def)

lemma py_max_nonempty: "x \<noteq> [] \<Longrightarrow> y \<noteq> [] \<Longrightarrow> py_max x y \<noteq> []"
  by (simp add: py_max_def)

lemma fromisoformat_error: "fromisoformat s = Inl e \<Longrightarrow> e = ValueError"
  by (simp add: fromisoformat_def Let_def split: if_splits)

lemma fromisoformat_Nil [simp]: "fromisoformat [] = Inl ValueError"
  by (simp add: fromisoformat_def)

lemma quarter_from_iso_Some:
  "fromisoformat s = Inr d \<Longrightarrow>
   quarter_from_iso (Some s) = Inr (Some (dec (year d) @ ''-Q'' @ dec ((month d - 1) div 3 + 1)))"
  by (cases "s = []") (simp_all add: quarter_from_iso_def Let_def)

lemma quarter_from_iso_error: "quarter_from_iso x = Inl e \<Longrightarrow> e = ValueError"
  by (cases "fromisoformat (str_or x [])")
     (auto simp: quarter_from_iso_def Let_def split: if_splits dest: fromisoformat_error)

lemma sale_quarter_error: "sale_quarter r = Inl e \<Longrightarrow> e = ValueError"
  by (auto simp: sale_quarter_def split: if_splits dest: quarter_from_iso_error)

lemma sale_hak_tarih_cases:
  "sale_hak_tarih r = None \<and> \<not> (truthy (collection_done_date r) \<and> truthy (delivery_done_date r))
   \<or> (\<exists>x y. collection_done_date r = Some x \<and> delivery_done_date r = Some y
          \<and> x \<noteq> [] \<and> y \<noteq> [] \<and> sale_hak_tarih r = Some (py_max x y))"
  by (cases "collection_done_date r"; cases "delivery_done_date r")
     (auto simp: sale_hak_tarih_def later_date_Some)

lemma sale_quarter_total:
  assumes "stored_date (collection_done_date r)" "stored_date (delivery_done_date r)"
  shows "\<exists>q. sale_quarter r = Inr q"
proof -
  from sale_hak_tarih_cases [of r] show ?thesis
  proof (elim disjE conjE exE)
    assume "sale_hak_tarih r = None"
    then show ?thesis by (simp add: sale_quarter_def)
  next
    fix x y
    assume xy: "collection_done_date r = Some x" "delivery_done_date r = Some y"
      "x \<noteq> []" "y \<noteq> []" and h: "sale_hak_tarih r = Some (py_max x y)"
    from assms xy obtain dx dy where "fromisoformat x = Inr dx" "fromisoformat y = Inr dy"
      by (auto simp: stored_date_def split: sum.splits)
    with py_max_cases [of x y] obtain d where "fromisoformat (py_max x y) = Inr d"
      by auto
    then show ?thesis
      using h by (simp add: sale_quarter_def quarter_from_iso_Some py_max_nonempty xy)
  qed
qed

lemma compute_sale_metrics_error:
  "compute_sale_metrics rates r totals targets = Inl e \<Longrightarrow> e = ValueError"
  by (cases rates; cases "sale_quarter r")
     (auto simp: compute_sale_metrics_unfold Let_def dest: sale_quarter_error)

lemma float_or_Some_zero [simp]: "float_or (Some p) 0 = p"
  by (simp add: float_or_def)

lemma float_or_None [simp]: "float_or None d = d"
  by (simp add: float_or_def)

lemma sum_LOCAL_TL_KEYS:
  "(\<Sum>k\<leftarrow>LOCAL_TL_KEYS. eur_value (k r) (local_kur r)) =
     eur_value (ic_nakliye_tl r) (local_kur r) + eur_value (gumruk_vergisi_tl r) (local_kur r)
     + eur_value (ek_gumruk_tl r) (local_kur r) + eur_value (gumruk_masraf_tl r) (local_kur r)
     + eur_value (komisyon_tl r) (local_kur r) + eur_value (diger_tl r) (local_kur r)"
  by (simp add: LOCAL_TL_KEYS_def)


subsection \<open>Scenario A, evaluated\<close>

lemma saleA_dates:
  "stored_date (collection_done_date saleA)" "stored_date (delivery_done_date saleA)"
  "truthy (collection_done_date saleA)" "truthy (delivery_done_date saleA)"
  by (simp_all add: saleA_def stored_date_def fromisoformat_def isdigit_def valid_date_def
        days_in_month_def is_leap_def Let_def)

lemma sale_quarter_saleA: "sale_quarter saleA = Inr (Some ''2024-Q1'')"
  by (simp add: sale_quarter_def sale_hak_tarih_def saleA_def later_date_def py_max_def
        quarter_from_iso_def fromisoformat_def isdigit_def valid_date_def days_in_month_def
        is_leap_def Let_def dec.simps digit_char_def)

lemma is_standart_Standart: "is_standart ''Standart''"
  by (simp add: is_standart_def lower_def strip_def isspace_def lower_char_def isupper_def)

lemma totals_saleA:
  "fetch_eligible_sales_totals [saleA] (''pinar'', ''2024-Q1'') = Some 1000"
  by (simp add: fetch_eligible_sales_totals_def quarter_rows_def quarter_row_def elig_def
        List.map_filter_def saleA_def sql_max_def substr_def sql_cast_int_def sql_isspace_def
        isdigit_def sql_div_def sql_int_text_def dec.simps digit_char_def float_or_def)

lemma compute_saleA:
  "compute_sale_metrics (3, 3, 1) saleA (fetch_eligible_sales_totals [saleA]) targetsA =
     Inr \<lparr>m_sale_eur = 1000, total_cost = 650, profit = 350, margin = Some (7 / 20),
          eligible = True, hak_tarih = Some ''2024-02-20'', quarter = Some ''2024-Q1'',
          target_factor = 1, rate = 3 / 100, seller_comm = 30, override = 10,
          reason = Accrues\<rparr>"
proof -
  have h: "sale_hak_tarih saleA = Some ''2024-02-20''"
    by (simp add: sale_hak_tarih_def saleA_def later_date_def py_max_def)
  have f: "factor_value ''pinar'' (Some ''2024-Q1'') (fetch_eligible_sales_totals [saleA]) targetsA = 1"
    by (simp add: factor_value_def targetsA_def totals_saleA)
  have r: "rate_value (Some (7 / 20)) ''Standart'' 3 3 = 3 / 100"
    by (simp add: rate_value_def is_standart_Standart)
  have s: "lower (strip ''Standart'') = ''standart''"
    using is_standart_Standart by (simp add: is_standart_def)
  have v: "(\<Sum>k\<leftarrow>LOCAL_TL_KEYS. eur_value (k saleA) (local_kur saleA)) = 0"
    by (simp add: LOCAL_TL_KEYS_def saleA_def eur_value_def)
  have fields: "seller_username saleA = ''pinar''" "job_type saleA = Some ''Standart''"
    "sale_eur saleA = Some 1000" "purchase_eur saleA = Some 600"
    "international_shipping_eur saleA = Some 50"
    by (simp_all add: saleA_def)
  have tg: "targetsA (''pinar'', ''2024-Q1'') = Some 1000"
    by (simp add: targetsA_def)
  show ?thesis
    by (simp add: compute_sale_metrics_unfold sale_quarter_saleA Let_def h v fields float_or_def
          saleA_dates r f s MIN_MARGIN_def tg)
qed

subsection \<open>Scenario A\<close>

text \<open>
  Claim C4: a sale with price 1000, purchase cost 600, shipping 50, local rate 10, the
  six components in the secondary currency all 0, job type \<^verbatim>\<open>"Standart"\<close> and both
  completion dates present, computed with a standard rate of 3 percent, has total cost
  650, profit 350, margin 0.35 and commission rate 0.03; with target factor 1.0 the
  seller commission is 30.00. The computation returns for such a sale.
\<close>

theorem scenario_A:
  assumes "sale_eur r = Some 1000" "purchase_eur r = Some 600"
    and "international_shipping_eur r = Some 50" "local_kur r = Some 10"
    and "ic_nakliye_tl r = Some 0" "gumruk_vergisi_tl r = Some 0" "ek_gumruk_tl r = Some 0"
    and "gumruk_masraf_tl r = Some 0" "komisyon_tl r = Some 0" "diger_tl r = Some 0"
    and "job_type r = Some ''Standart''"
    and "truthy (collection_done_date r)" "truthy (delivery_done_date r)"
    and "stored_date (collection_done_date r)" "stored_date (delivery_done_date r)"
  shows "\<exists>m. compute_sale_metrics (3, prj_pct, ovr_pct) r totals targets = Inr m
    \<and> eligible m \<and> total_cost m = 650 \<and> profit m = 350 \<and> margin m = Some 0.35
    \<and> rate m = 0.03 \<and> (target_factor m = 1.0 \<longrightarrow> seller_comm m = 30.00)"
proof -
  from sale_quarter_total [OF assms(14,15)] obtain q where q: "sale_quarter r = Inr q" ..
  have "(\<Sum>k\<leftarrow>LOCAL_TL_KEYS. eur_value (k r) (local_kur r)) = 0"
    unfolding sum_LOCAL_TL_KEYS by (simp add: assms eur_value_def)
  then show ?thesis
    by (simp add: compute_sale_metrics_unfold q Let_def assms rate_value_def
          is_standart_Standart)
qed

theorem scenario_A_witness:
  "\<exists>m. compute_sale_metrics (3, 3, 1) saleA (fetch_eligible_sales_totals [saleA]) targetsA = Inr m
    \<and> target_factor m = 1 \<and> total_cost m = 650 \<and> profit m = 350 \<and> margin m = Some 0.35
    \<and> rate m = 0.03 \<and> seller_comm m = 30"
proof -
  have "\<exists>m. compute_sale_metrics (3, 3, 1) saleA (fetch_eligible_sales_totals [saleA]) targetsA = Inr m
    \<and> eligible m \<and> total_cost m = 650 \<and> profit m = 350 \<and> margin m = Some 0.35
    \<and> rate m = 0.03 \<and> (target_factor m = 1.0 \<longrightarrow> seller_comm m = 30.00)"
    by (rule scenario_A) (simp_all add: saleA_dates, simp_all add: saleA_def)
  then obtain m where m:
    "compute_sale_metrics (3, 3, 1) saleA (fetch_eligible_sales_totals [saleA]) targetsA = Inr m"
    "total_cost m = 650" "profit m = 350" "margin m = Some 0.35" "rate m = 0.03"
    "target_factor m = 1 \<longrightarrow> seller_comm m = 30"
    by auto
  from m(1) have "target_factor m = 1"
    by (auto simp: compute_saleA)
  with m show ?thesis by auto
qed

subsection \<open>Attribution date and quarter\<close>

lemma quarter_number: "(m - 1) div 3 + 1 = nat \<lceil>real m / 3\<rceil>" if "1 \<le> m" for m :: nat
proof -
  define j where "j = (m - 1) div 3"
  have "3 * j + (m - 1) mod 3 = m - 1" by (simp add: j_def)
  moreover have "(m - 1) mod 3 < 3" by simp
  ultimately have n: "3 * j < m" "m \<le> 3 * j + 3" using that by linarith+
  have "real (3 * j) < real m" "real m \<le> real (3 * j + 3)"
    using n by (simp_all only: of_nat_less_iff of_nat_le_iff)
  then have "\<lceil>real m / 3\<rceil> = int j + 1"
    by (intro ceiling_unique) simp_all
  then show ?thesis by (simp add: j_def)
qed

lemma isoformat_nonempty [simp]: "isoformat d \<noteq> []"
  using isoformat_parts(1) [of d] by auto

lemma py_max_isoformat:
  assumes "valid_date a" "valid_date b"
  shows "py_max (isoformat a) (isoformat b) = isoformat (later_of a b)"
  by (simp add: py_max_def later_of_def str_less_isoformat [OF assms])

lemma later_date_isoformat:
  assumes "valid_date a" "valid_date b"
  shows "later_date (Some (isoformat a)) (Some (isoformat b)) = Some (isoformat (later_of a b))"
proof -
  have "later_date (Some (isoformat a)) (Some (isoformat b))
      = Some (py_max (isoformat a) (isoformat b))"
    by (rule later_date_Some) simp_all
  then show ?thesis by (simp only: py_max_isoformat [OF assms])
qed

lemma valid_date_later_of: "valid_date a \<Longrightarrow> valid_date b \<Longrightarrow> valid_date (later_of a b)"
  by (simp add: later_of_def)

lemma quarter_from_iso_isoformat:
  assumes "valid_date d"
  shows "quarter_from_iso (Some (isoformat d)) =
           Inr (Some (dec (year d) @ ''-Q'' @ dec (nat \<lceil>real (month d) / 3\<rceil>)))"
proof -
  from assms have m: "1 \<le> month d" by (simp add: valid_date_def)
  have "quarter_from_iso (Some (isoformat d)) =
      Inr (Some (dec (year d) @ ''-Q'' @ dec ((month d - 1) div 3 + 1)))"
    using fromisoformat_isoformat [OF assms] by (rule quarter_from_iso_Some)
  then show ?thesis by (simp only: quarter_number [OF m])
qed

lemma sample_dates:
  "valid_date date_collected" "valid_date date_delivered"
  "isoformat date_collected = ''2024-01-15''" "isoformat date_delivered = ''2024-02-20''"
  "later_of date_collected date_delivered = date_delivered"
  by (simp_all add: date_collected_def date_delivered_def valid_date_def days_in_month_def
        is_leap_def isoformat_def pad4_def pad2_def digit_char_def later_of_def date_less_def)

text \<open>
  Claim C5: for a sale whose two completion dates are the stored texts of the calendar
  dates \<open>a\<close> and \<open>b\<close>, the attribution date is the text of the chronologically later
  of \<open>a\<close> and \<open>b\<close> (of either when they are equal), and the quarter derived from
  that date is the year, \<^verbatim>\<open>"-Q"\<close> and the ceiling of month / 3. This holds of
  \<^verbatim>\<open>later_date\<close> and \<^verbatim>\<open>quarter_from_iso\<close> and of the fields \<^verbatim>\<open>hak_tarih\<close> and
  \<^verbatim>\<open>quarter\<close> that \<^verbatim>\<open>compute_sale_metrics\<close> returns for the sale, which is eligible.
\<close>

theorem attribution_date_and_quarter:
  assumes "valid_date a" "valid_date b"
    and "collection_done_date r = Some (isoformat a)"
    and "delivery_done_date r = Some (isoformat b)"
  shows "later_date (collection_done_date r) (delivery_done_date r)
           = Some (isoformat (later_of a b))
    \<and> quarter_from_iso (Some (isoformat (later_of a b)))
           = Inr (Some (dec (year (later_of a b)) @ ''-Q''
                        @ dec (nat \<lceil>real (month (later_of a b)) / 3\<rceil>)))
    \<and> (\<exists>m. compute_sale_metrics rates r totals targets = Inr m
          \<and> eligible m
          \<and> hak_tarih m = Some (isoformat (later_of a b))
          \<and> quarter m = Some (dec (year (later_of a b)) @ ''-Q''
                              @ dec (nat \<lceil>real (month (later_of a b)) / 3\<rceil>)))"
proof -
  let ?l = "later_of a b"
  have l: "valid_date ?l" using assms(1,2) by (rule valid_date_later_of)
  have later: "later_date (collection_done_date r) (delivery_done_date r) = Some (isoformat ?l)"
    unfolding assms(3,4) using assms(1,2) by (rule later_date_isoformat)
  have qtr: "quarter_from_iso (Some (isoformat ?l))
      = Inr (Some (dec (year ?l) @ ''-Q'' @ dec (nat \<lceil>real (month ?l) / 3\<rceil>)))"
    using l by (rule quarter_from_iso_isoformat)
  have hak: "sale_hak_tarih r = Some (isoformat ?l)"
    using later by (simp add: sale_hak_tarih_def assms(3,4))
  have sq: "sale_quarter r
      = Inr (Some (dec (year ?l) @ ''-Q'' @ dec (nat \<lceil>real (month ?l) / 3\<rceil>)))"
    by (simp add: sale_quarter_def hak qtr)
  obtain std prj ovr where rates: "rates = (std, prj, ovr)" by (cases rates)
  have "\<exists>m. compute_sale_metrics rates r totals targets = Inr m
          \<and> eligible m
          \<and> hak_tarih m = Some (isoformat ?l)
          \<and> quarter m = Some (dec (year ?l) @ ''-Q'' @ dec (nat \<lceil>real (month ?l) / 3\<rceil>))"
    by (simp add: rates compute_sale_metrics_unfold sq Let_def hak assms(3,4))
  with later qtr show ?thesis by blast
qed

theorem attribution_date_and_quarter_witness:
  "later_date (Some ''2024-01-15'') (Some ''2024-02-20'') = Some ''2024-02-20''
   \<and> quarter_from_iso (Some ''2024-02-20'') = Inr (Some ''2024-Q1'')
   \<and> (\<exists>m. compute_sale_metrics (3, 3, 1) saleA Map.empty Map.empty = Inr m
         \<and> eligible m \<and> hak_tarih m = Some ''2024-02-20'' \<and> quarter m = Some ''2024-Q1'')"
proof -
  have c: "collection_done_date saleA = Some (isoformat date_collected)"
    and d: "delivery_done_date saleA = Some (isoformat date_delivered)"
    by (simp_all add: sample_dates saleA_def)
  have q: "dec (year date_delivered) = ''2024''"
    "dec (nat \<lceil>real (month date_delivered) / 3\<rceil>) = ''1''"
    by (simp_all add: date_delivered_def dec.simps digit_char_def)
  show ?thesis
    using attribution_date_and_quarter [OF sample_dates(1,2) c d,
        where rates = "(3, 3, 1)" and totals = Map.empty and targets = Map.empty]
    by (simp add: sample_dates q saleA_def)
qed

subsection \<open>Margin\<close>

text \<open>
  Claim C6: the margin of a sale is \<open>profit / sale price\<close> when the sale price is
  positive; when the sale price is null or at most 0 the margin is the absent value
  \<open>None\<close>, not a number. When the margin is absent the commission rate is 0, in the
  metrics and as the result of \<^verbatim>\<open>commission_rate\<close>. The computation returns for every
  sale whose date columns are as \<^verbatim>\<open>parse_date\<close> stores them.
\<close>

theorem margin_absent_unless_price_positive:
  assumes "stored_date (collection_done_date r)" "stored_date (delivery_done_date r)"
  shows "(\<exists>m. compute_sale_metrics rates r totals targets = Inr m
      \<and> (case sale_eur r of
            None \<Rightarrow> margin m = None
          | Some p \<Rightarrow> margin m = (if 0 < p then Some (profit m / p) else None))
      \<and> (margin m = None \<longrightarrow> rate m = 0))
    \<and> commission_rate None jt std_pct prj_pct = Inr 0"
proof -
  from sale_quarter_total [OF assms] obtain q where q: "sale_quarter r = Inr q" ..
  obtain std prj ovr where rates: "rates = (std, prj, ovr)" by (cases rates)
  show ?thesis
    by (cases "sale_eur r")
       (simp_all add: rates compute_sale_metrics_unfold q Let_def rate_value_def
          commission_rate_eq)
qed

theorem margin_absent_unless_price_positive_witness:
  "(\<exists>m. compute_sale_metrics (3, 3, 1) saleA Map.empty Map.empty = Inr m
       \<and> margin m = Some (profit m / 1000))
   \<and> (\<exists>m. compute_sale_metrics (3, 3, 1) (saleA\<lparr>sale_eur := None\<rparr>) Map.empty Map.empty = Inr m
       \<and> margin m = None \<and> rate m = 0)
   \<and> (\<exists>m. compute_sale_metrics (3, 3, 1) (saleA\<lparr>sale_eur := Some 0\<rparr>) Map.empty Map.empty = Inr m
       \<and> margin m = None \<and> rate m = 0)"
proof -
  have a: "stored_date (collection_done_date (saleA\<lparr>sale_eur := x\<rparr>))"
    and b: "stored_date (delivery_done_date (saleA\<lparr>sale_eur := x\<rparr>))" for x
    using saleA_dates by simp_all
  show ?thesis
    using
      margin_absent_unless_price_positive [OF saleA_dates(1,2),
        where rates = "(3, 3, 1)" and totals = Map.empty and targets = Map.empty]
      margin_absent_unless_price_positive [OF a [of None] b [of None],
        where rates = "(3, 3, 1)" and totals = Map.empty and targets = Map.empty]
      margin_absent_unless_price_positive [OF a [of "Some 0"] b [of "Some 0"],
        where rates = "(3, 3, 1)" and totals = Map.empty and targets = Map.empty]
    by (simp add: saleA_def) blast
qed

subsection \<open>Costs\<close>

text \<open>
  Claim C7: each of the six cost components in the secondary currency is divided by the
  local rate of the sale, and contributes exactly 0, without an error, when the rate is
  null or zero or the component is null. The loop over the six components returns their
  sum, the total cost is purchase cost + international shipping cost + that sum (a null
  cost counting as 0), \<^verbatim>\<open>compute_sale_metrics\<close> never raises a division error, and it
  returns for every sale whose date columns are as \<^verbatim>\<open>parse_date\<close> stores them.
\<close>

theorem cost_conversion_never_raises:
  "(tlv = None \<or> kur = None \<or> kur = Some 0 \<longrightarrow> eur_from_tl tlv kur = Inr 0)
   \<and> (\<forall>t k. tlv = Some t \<and> kur = Some k \<and> k \<noteq> 0 \<longrightarrow> eur_from_tl tlv kur = Inr (t / k))
   \<and> local_sum_loop LOCAL_TL_KEYS r 0 =
        Inr (eur_value (ic_nakliye_tl r) (local_kur r)
             + eur_value (gumruk_vergisi_tl r) (local_kur r)
             + eur_value (ek_gumruk_tl r) (local_kur r)
             + eur_value (gumruk_masraf_tl r) (local_kur r)
             + eur_value (komisyon_tl r) (local_kur r)
             + eur_value (diger_tl r) (local_kur r))
   \<and> compute_sale_metrics rates r totals targets \<noteq> Inl ZeroDivisionError
   \<and> (stored_date (collection_done_date r) \<and> stored_date (delivery_done_date r) \<longrightarrow>
        (\<exists>m. compute_sale_metrics rates r totals targets = Inr m
           \<and> total_cost m =
               float_or (purchase_eur r) 0 + float_or (international_shipping_eur r) 0
               + (eur_value (ic_nakliye_tl r) (local_kur r)
                  + eur_value (gumruk_vergisi_tl r) (local_kur r)
                  + eur_value (ek_gumruk_tl r) (local_kur r)
                  + eur_value (gumruk_masraf_tl r) (local_kur r)
                  + eur_value (komisyon_tl r) (local_kur r)
                  + eur_value (diger_tl r) (local_kur r))))"
proof -
  have conv: "(tlv = None \<or> kur = None \<or> kur = Some 0 \<longrightarrow> eur_from_tl tlv kur = Inr 0)
      \<and> (\<forall>t k. tlv = Some t \<and> kur = Some k \<and> k \<noteq> 0 \<longrightarrow> eur_from_tl tlv kur = Inr (t / k))"
    by (auto simp: eur_from_tl_eq eur_value_def split: option.splits)
  have loop: "local_sum_loop LOCAL_TL_KEYS r 0 =
        Inr (eur_value (ic_nakliye_tl r) (local_kur r)
             + eur_value (gumruk_vergisi_tl r) (local_kur r)
             + eur_value (ek_gumruk_tl r) (local_kur r)
             + eur_value (gumruk_masraf_tl r) (local_kur r)
             + eur_value (komisyon_tl r) (local_kur r)
             + eur_value (diger_tl r) (local_kur r))"
    by (simp add: local_sum_loop_eq sum_LOCAL_TL_KEYS)
  have nozero: "compute_sale_metrics rates r totals targets \<noteq> Inl ZeroDivisionError"
    using compute_sale_metrics_error [of rates r totals targets ZeroDivisionError] by auto
  have total: "\<exists>m. compute_sale_metrics rates r totals targets = Inr m
           \<and> total_cost m =
               float_or (purchase_eur r) 0 + float_or (international_shipping_eur r) 0
               + (eur_value (ic_nakliye_tl r) (local_kur r)
                  + eur_value (gumruk_vergisi_tl r) (local_kur r)
                  + eur_value (ek_gumruk_tl r) (local_kur r)
                  + eur_value (gumruk_masraf_tl r) (local_kur r)
                  + eur_value (komisyon_tl r) (local_kur r)
                  + eur_value (diger_tl r) (local_kur r))"
    if "stored_date (collection_done_date r)" "stored_date (delivery_done_date r)"
  proof -
    from sale_quarter_total [OF that] obtain q where q: "sale_quarter r = Inr q" ..
    obtain std prj ovr where rates: "rates = (std, prj, ovr)" by (cases rates)
    show ?thesis
      by (simp add: rates compute_sale_metrics_unfold q Let_def sum_LOCAL_TL_KEYS)
  qed
  from conv loop nozero total show ?thesis by blast
qed

theorem cost_conversion_never_raises_witness:
  "eur_from_tl (Some 500) (Some 0) = Inr 0
   \<and> eur_from_tl (Some 500) None = Inr 0
   \<and> eur_from_tl None (Some 10) = Inr 0
   \<and> eur_from_tl (Some 500) (Some 10) = Inr 50
   \<and> local_sum_loop LOCAL_TL_KEYS saleB 0 = Inr 0
   \<and> (\<exists>m. compute_sale_metrics (3, 3, 1) saleB Map.empty Map.empty = Inr m
          \<and> total_cost m = 650)"
proof -
  have d: "stored_date (collection_done_date saleB) \<and> stored_date (delivery_done_date saleB)"
    using saleA_dates by (simp add: saleB_def)
  have v: "eur_value x (Some 0) = 0" "eur_value None y = 0" for x y
    by (simp_all add: eur_value_def split: option.splits)
  have f: "local_kur saleB = Some 0" "purchase_eur saleB = Some 600"
    "international_shipping_eur saleB = Some 50"
    by (simp_all add: saleB_def saleA_def)
  show ?thesis
    using d
      cost_conversion_never_raises [where tlv = "Some 500" and kur = "Some 0" and r = saleB
        and rates = "(3, 3, 1)" and totals = Map.empty and targets = Map.empty]
      cost_conversion_never_raises [where tlv = "Some 500" and kur = None and r = saleB
        and rates = "(3, 3, 1)" and totals = Map.empty and targets = Map.empty]
      cost_conversion_never_raises [where tlv = None and kur = "Some 10" and r = saleB
        and rates = "(3, 3, 1)" and totals = Map.empty and targets = Map.empty]
      cost_conversion_never_raises [where tlv = "Some 500" and kur = "Some 10" and r = saleB
        and rates = "(3, 3, 1)" and totals = Map.empty and targets = Map.empty]
    by (simp add: v f)
qed

subsection \<open>Reason\<close>



section \<open>The quarterly totals\<close>

subsection \<open>The rows that the query counts\<close>


lemma elig_null_price: "sale_eur r = None \<Longrightarrow> elig r = None"
  by (simp add: elig_def split: option.splits)

lemma quarter_rows_Cons:
  "quarter_rows (r # rs) =
     (case elig r of None \<Rightarrow> quarter_rows rs | Some e \<Rightarrow> quarter_row e # quarter_rows rs)"
  by (simp add: quarter_rows_def split: option.splits)

lemma quarter_rows_append: "quarter_rows (xs @ ys) = quarter_rows xs @ quarter_rows ys"
  by (simp add: quarter_rows_def List.map_filter_def)




subsection \<open>Three rows, evaluated\<close>


lemma elig_saleA: "elig saleA = Some (''pinar'', 1000, ''2024-02-20'', 2, ''2024'')"
  by (simp add: elig_def saleA_def sql_max_def substr_def sql_cast_int_def sql_isspace_def
        isdigit_def)

lemma elig_saleC: "elig saleC = Some (''pinar'', 500, ''2024-02-20'', 2, ''2024'')"
  by (simp add: elig_def saleC_def saleA_def sql_max_def substr_def sql_cast_int_def
        sql_isspace_def isdigit_def)

lemma quarter_row_Q1:
  "quarter_row (''pinar'', p, ''2024-02-20'', 2, ''2024'') = ((''pinar'', ''2024-Q1''), p)"
  by (simp add: quarter_row_def sql_div_def sql_int_text_def dec.simps digit_char_def)


lemma totals_AC:
  "fetch_eligible_sales_totals [saleA, saleC] (''pinar'', ''2024-Q1'') = Some 1500"
  by (simp add: fetch_eligible_sales_totals_def quarter_rows_def List.map_filter_def
        elig_saleA elig_saleC quarter_row_Q1)


subsection \<open>The key of the query and the quarter of the metrics\<close>

text \<open>
  The query reads the year and the month off the text of the attribution date, while
  \<^verbatim>\<open>quarter_from_iso\<close> parses the date and prints the year without leading zeros. For
  a priced sale whose completion dates are stored ISO texts and whose attribution date
  lies in the year 1000 or later, both give the same quarter: the key under which the
  query counts the sale is its seller with the quarter of its metrics.
\<close>

lemma digit_char_plain:
  assumes "k < 10"
  shows "\<not> sql_isspace (digit_char k) \<and> digit_char k \<noteq> CHR ''-'' \<and> digit_char k \<noteq> CHR ''+''"
  using assms by (rule digit_cases) (simp_all add: digit_char_def sql_isspace_def)

lemma sql_cast_int_pad2:
  assumes "n < 100"
  shows "sql_cast_int (pad2 n) = int n"
proof -
  from assms have k: "n div 10 < 10" by simp
  have "sql_cast_int (pad2 n) = int (digits_val 0 (pad2 n))"
    using digit_char_plain [OF k] by (simp add: sql_cast_int_def pad2_def)
  then show ?thesis by (simp add: digits_val_pad2 [OF assms])
qed

lemma sql_int_text_nat: "sql_int_text (int n) = dec n"
  by (simp add: sql_int_text_def)

lemma sql_div_quarter:
  assumes "1 \<le> m"
  shows "sql_div (int m - 1) 3 + 1 = int ((m - 1) div 3 + 1)"
proof -
  from assms have e: "int m - 1 = int (m - 1)" by simp
  have "sql_div (int (m - 1)) 3 = int ((m - 1) div 3)"
    by (simp add: sql_div_def zdiv_int)
  then show ?thesis unfolding e by simp
qed

lemma dec_step: "10 \<le> n \<Longrightarrow> dec n = dec (n div 10) @ [digit_char (n mod 10)]"
  by (subst dec.simps) simp

lemma dec_digit: "n < 10 \<Longrightarrow> dec n = [digit_char n]"
  by (subst dec.simps) simp

lemma pad4_eq_dec:
  assumes "1000 \<le> y" "y < 10000"
  shows "pad4 y = dec y"
proof -
  have a: "y div 100 div 10 = y div 1000" "y div 10 div 10 = y div 100"
    by (simp_all add: div_mult2_eq [symmetric])
  have b: "y mod 100 mod 10 = y mod 10"
    by (simp add: mod_mod_cancel)
  have "y mod (10 * 10) = 10 * (y div 10 mod 10) + y mod 10"
    by (rule mod_mult2_eq)
  then have c: "y mod 100 div 10 = y div 10 mod 10" by simp
  from assms have g: "10 \<le> y" "10 \<le> y div 10" "10 \<le> y div 100" "y div 1000 < 10"
    by simp_all
  have "dec y = dec (y div 10) @ [digit_char (y mod 10)]"
    using g(1) by (rule dec_step)
  also have "dec (y div 10) = dec (y div 100) @ [digit_char (y div 10 mod 10)]"
    using dec_step [OF g(2)] by (simp only: a)
  also have "dec (y div 100) = dec (y div 1000) @ [digit_char (y div 100 mod 10)]"
    using dec_step [OF g(3)] by (simp only: a)
  also have "dec (y div 1000) = [digit_char (y div 1000)]"
    using g(4) by (rule dec_digit)
  finally have "dec y = [digit_char (y div 1000), digit_char (y div 100 mod 10),
                 digit_char (y div 10 mod 10), digit_char (y mod 10)]"
    by simp
  moreover have "pad4 y = [digit_char (y div 1000), digit_char (y div 100 mod 10),
                 digit_char (y div 10 mod 10), digit_char (y mod 10)]"
    by (simp only: pad4_def pad2_def a b c append.simps)
  ultimately show ?thesis by simp
qed

lemma sql_max_isoformat:
  assumes "valid_date a" "valid_date b"
  shows "sql_max (isoformat a) (isoformat b) = isoformat (later_of a b)"
  by (simp add: sql_max_def later_of_def str_less_isoformat [OF assms])

lemma substr_isoformat:
  "substr (isoformat d) 6 2 = pad2 (month d)" "substr (isoformat d) 1 4 = pad4 (year d)"
  by (simp_all add: substr_def isoformat_parts)

lemma sql_quarter_isoformat:
  assumes "valid_date d" "1000 \<le> year d"
  shows "quarter_row (s, p, isoformat d, sql_cast_int (substr (isoformat d) 6 2),
                      substr (isoformat d) 1 4)
          = ((s, dec (year d) @ ''-Q'' @ dec ((month d - 1) div 3 + 1)), p)"
proof -
  from assms(1) have m: "1 \<le> month d" "month d < 100" and y: "year d < 10000"
    by (simp_all add: valid_date_def)
  show ?thesis
    unfolding substr_isoformat sql_cast_int_pad2 [OF m(2)] quarter_row_def prod.case
      sql_div_quarter [OF m(1)] sql_int_text_nat pad4_eq_dec [OF assms(2) y] ..
qed

lemma aggregated_key_is_sale_quarter:
  assumes "valid_date a" "valid_date b" "1000 \<le> year (later_of a b)"
    and "collection_done_date r = Some (isoformat a)"
    and "delivery_done_date r = Some (isoformat b)"
    and "sale_eur r = Some p"
  shows "\<exists>q. sale_quarter r = Inr (Some q) \<and> aggregated_key r = Some (seller_username r, q)"
proof -
  let ?l = "later_of a b"
  let ?q = "dec (year ?l) @ ''-Q'' @ dec ((month ?l - 1) div 3 + 1)"
  have l: "valid_date ?l" using assms(1,2) by (rule valid_date_later_of)
  have "later_date (collection_done_date r) (delivery_done_date r) = Some (isoformat ?l)"
    unfolding assms(4,5) using assms(1,2) by (rule later_date_isoformat)
  then have hak: "sale_hak_tarih r = Some (isoformat ?l)"
    by (simp add: sale_hak_tarih_def assms(4,5))
  have "quarter_from_iso (Some (isoformat ?l)) = Inr (Some ?q)"
    using fromisoformat_isoformat [OF l] by (rule quarter_from_iso_Some)
  then have sq: "sale_quarter r = Inr (Some ?q)"
    by (simp add: sale_quarter_def hak)
  have "elig r = Some (seller_username r, p, isoformat ?l,
                       sql_cast_int (substr (isoformat ?l) 6 2), substr (isoformat ?l) 1 4)"
    by (simp add: elig_def assms(4-6) sql_max_isoformat [OF assms(1,2)])
  then have "aggregated_key r = Some (seller_username r, ?q)"
    by (simp only: aggregated_key_def option.map sql_quarter_isoformat [OF l assms(3)] fst_conv)
  with sq show ?thesis by blast
qed

subsection \<open>Commissions against totals\<close>



subsection \<open>Sales without a price\<close>

text \<open>
  Claim C10: a sale with both completion dates present and a null sale price is left out
  of the totals: the totals of a table with the sale are those of the table without it,
  and when it is the only row its key is absent. By the rule on the two dates alone the
  sale is eligible, as the metrics computed for it say.
\<close>

theorem null_price_excluded_from_totals:
  assumes "truthy (collection_done_date r)" "truthy (delivery_done_date r)"
    and "sale_eur r = None"
  shows "fetch_eligible_sales_totals (xs @ r # ys) = fetch_eligible_sales_totals (xs @ ys)
    \<and> fetch_eligible_sales_totals [r] k = None
    \<and> (stored_date (collection_done_date r) \<and> stored_date (delivery_done_date r) \<longrightarrow>
         (\<exists>m. compute_sale_metrics rates r totals targets = Inr m \<and> eligible m))"
proof -
  have rows: "quarter_rows (xs @ r # ys) = quarter_rows (xs @ ys)"
    using quarter_rows_append [of xs "r # ys"] quarter_rows_append [of xs ys]
    by (simp add: quarter_rows_Cons elig_null_price [OF assms(3)])
  have same: "fetch_eligible_sales_totals (xs @ r # ys) = fetch_eligible_sales_totals (xs @ ys)"
    by (simp only: fetch_eligible_sales_totals_def rows)
  have "quarter_rows [r] = []"
    by (simp add: quarter_rows_Cons elig_null_price [OF assms(3)] quarter_rows_def)
  then have absent: "fetch_eligible_sales_totals [r] k = None"
    by (simp add: fetch_eligible_sales_totals_def)
  have elig: "\<exists>m. compute_sale_metrics rates r totals targets = Inr m \<and> eligible m"
    if "stored_date (collection_done_date r)" "stored_date (delivery_done_date r)"
  proof -
    from sale_quarter_total [OF that] obtain q where q: "sale_quarter r = Inr q" ..
    obtain std prj ovr where rates: "rates = (std, prj, ovr)" by (cases rates)
    show ?thesis
      by (simp add: rates compute_sale_metrics_unfold q Let_def assms(1,2))
  qed
  from same absent elig show ?thesis by blast
qed

theorem null_price_excluded_from_totals_witness:
  "truthy (collection_done_date saleN) \<and> truthy (delivery_done_date saleN)
   \<and> sale_eur saleN = None
   \<and> fetch_eligible_sales_totals [saleA, saleN, saleC] = fetch_eligible_sales_totals [saleA, saleC]
   \<and> fetch_eligible_sales_totals [saleA, saleN, saleC] (''pinar'', ''2024-Q1'') = Some 1500
   \<and> fetch_eligible_sales_totals [saleN] (''pinar'', ''2024-Q1'') = None
   \<and> (\<exists>m. compute_sale_metrics (3, 3, 1) saleN Map.empty Map.empty = Inr m \<and> eligible m)"
proof -
  have d: "truthy (collection_done_date saleN)" "truthy (delivery_done_date saleN)"
    "sale_eur saleN = None"
    using saleA_dates by (simp_all add: saleN_def)
  have s: "stored_date (collection_done_date saleN)" "stored_date (delivery_done_date saleN)"
    using saleA_dates by (simp_all add: saleN_def)
  from null_price_excluded_from_totals [OF d, where xs = "[saleA]" and ys = "[saleC]"
      and k = "(''pinar'', ''2024-Q1'')" and rates = "(3, 3, 1)" and totals = Map.empty
      and targets = Map.empty] d s
  show ?thesis by (simp add: totals_AC)
qed

end
